theory Spec2Isabelle
  imports Complex_Main "HOL-Library.Monad_Syntax"
begin

section \<open>GLSL values\<close>

text \<open>
  The shaders compute on GLSL \<open>float\<close>, \<open>vec2\<close>, \<open>vec3\<close> and \<open>vec4\<close>. A \<open>float\<close> is
  modelled as a real number (exact arithmetic, no rounding); an operation whose GLSL
  result is undefined (\<open>normalize\<close> of a zero-length vector, \<open>smoothstep\<close> with
  \<open>edge0 >= edge1\<close>) returns \<open>None\<close>, which stands for the NaN or undefined value
  that the GPU would write.
\<close>

datatype vec3 = Vec3 (vx: real) (vy: real) (vz: real)

type_synonym vec2 = "real \<times> real"

text \<open>A \<open>vec4\<close> is used only as \<open>vec4(xyz, w)\<close> and read through \<open>.xyz\<close> and \<open>.w\<close>.\<close>

type_synonym vec4 = "vec3 \<times> real"

definition xyz :: "vec4 \<Rightarrow> vec3" where
  "xyz t = fst t"

instantiation vec3 :: real_vector
begin

definition zero_vec3 :: vec3 where
  "zero_vec3 = Vec3 0 0 0"

definition plus_vec3 :: "vec3 \<Rightarrow> vec3 \<Rightarrow> vec3" where
  "plus_vec3 a b = Vec3 (vx a + vx b) (vy a + vy b) (vz a + vz b)"

definition minus_vec3 :: "vec3 \<Rightarrow> vec3 \<Rightarrow> vec3" where
  "minus_vec3 a b = Vec3 (vx a - vx b) (vy a - vy b) (vz a - vz b)"

definition uminus_vec3 :: "vec3 \<Rightarrow> vec3" where
  "uminus_vec3 a = Vec3 (- vx a) (- vy a) (- vz a)"

definition scaleR_vec3 :: "real \<Rightarrow> vec3 \<Rightarrow> vec3" where
  "scaleR_vec3 c a = Vec3 (c * vx a) (c * vy a) (c * vz a)"

instance
  by standard
    (simp_all add: zero_vec3_def plus_vec3_def minus_vec3_def uminus_vec3_def
      scaleR_vec3_def vec3.expand algebra_simps)

end

text \<open>\<open>vec3(s)\<close>: the same scalar in every component.\<close>

definition vec3s :: "real \<Rightarrow> vec3" where
  "vec3s s = Vec3 s s s"

definition dot :: "vec3 \<Rightarrow> vec3 \<Rightarrow> real" where
  "dot a b = vx a * vx b + vy a * vy b + vz a * vz b"

definition length_v :: "vec3 \<Rightarrow> real" where
  "length_v a = sqrt (dot a a)"

text \<open>\<open>normalize(v) = v / length(v)\<close>; undefined for a zero-length vector.\<close>

definition normalize :: "vec3 \<Rightarrow> vec3 option" where
  "normalize a = (if length_v a = 0 then None else Some ((1 / length_v a) *\<^sub>R a))"

definition fract :: "real \<Rightarrow> real" where
  "fract x = x - of_int \<lfloor>x\<rfloor>"

text \<open>GLSL \<open>mod(x, y) = x - y * floor(x / y)\<close>.\<close>

definition mod_f :: "real \<Rightarrow> real \<Rightarrow> real" where
  "mod_f x y = x - y * of_int \<lfloor>x / y\<rfloor>"

definition mix :: "real \<Rightarrow> real \<Rightarrow> real \<Rightarrow> real" where
  "mix a b t = a * (1 - t) + b * t"

definition clamp :: "real \<Rightarrow> real \<Rightarrow> real \<Rightarrow> real" where
  "clamp x lo hi = min (max x lo) hi"

text \<open>
  \<open>smoothstep(edge0, edge1, x)\<close>: \<open>t = clamp((x - edge0) / (edge1 - edge0), 0, 1)\<close>,
  result \<open>t * t * (3 - 2 * t)\<close>; undefined when \<open>edge0 >= edge1\<close>.
\<close>

definition smoothstep :: "real \<Rightarrow> real \<Rightarrow> real \<Rightarrow> real option" where
  "smoothstep edge0 edge1 x =
     (if edge0 \<ge> edge1 then None
      else (let t = clamp ((x - edge0) / (edge1 - edge0)) 0 1 in Some (t * t * (3 - 2 * t))))"

section \<open>NoiseField (velocity shader: \<open>hash3\<close>, \<open>noise3D\<close>, \<open>curlNoise\<close>)\<close>

definition hash3 :: "vec3 \<Rightarrow> vec3" where
  "hash3 p =
     (let q = Vec3 (dot p (Vec3 127.1 311.7 74.7))
                   (dot p (Vec3 269.5 183.3 246.1))
                   (dot p (Vec3 113.5 271.9 124.6))
      in Vec3 (- 1 + 2 * fract (sin (vx q) * 43758.5453123))
              (- 1 + 2 * fract (sin (vy q) * 43758.5453123))
              (- 1 + 2 * fract (sin (vz q) * 43758.5453123)))"

definition noise3D :: "vec3 \<Rightarrow> real" where
  "noise3D p =
     (let i = Vec3 (of_int \<lfloor>vx p\<rfloor>) (of_int \<lfloor>vy p\<rfloor>) (of_int \<lfloor>vz p\<rfloor>);
          f = Vec3 (fract (vx p)) (fract (vy p)) (fract (vz p));
          u = Vec3 (vx f * vx f * (3 - 2 * vx f))
                   (vy f * vy f * (3 - 2 * vy f))
                   (vz f * vz f * (3 - 2 * vz f))
      in mix
          (mix (mix (dot (hash3 (i + Vec3 0 0 0)) (f - Vec3 0 0 0))
                    (dot (hash3 (i + Vec3 1 0 0)) (f - Vec3 1 0 0)) (vx u))
               (mix (dot (hash3 (i + Vec3 0 1 0)) (f - Vec3 0 1 0))
                    (dot (hash3 (i + Vec3 1 1 0)) (f - Vec3 1 1 0)) (vx u)) (vy u))
          (mix (mix (dot (hash3 (i + Vec3 0 0 1)) (f - Vec3 0 0 1))
                    (dot (hash3 (i + Vec3 1 0 1)) (f - Vec3 1 0 1)) (vx u))
               (mix (dot (hash3 (i + Vec3 0 1 1)) (f - Vec3 0 1 1))
                    (dot (hash3 (i + Vec3 1 1 1)) (f - Vec3 1 1 1)) (vx u)) (vy u))
          (vz u))"

text \<open>
  \<open>curlNoise\<close>: six central differences of \<open>noise3D\<close> with step \<open>e = 0.1\<close>, in the
  order of the source (\<open>a\<close>, \<open>b\<close>, \<open>c\<close>, \<open>d\<close>, \<open>ee\<close>, \<open>f\<close>), combined as
  \<open>vec3(a - d, b - f, c - ee)\<close>.
\<close>

definition curlNoise :: "vec3 \<Rightarrow> vec3" where
  "curlNoise p =
     (let e = 0.1;
          a = (noise3D (p + Vec3 0 e 0) - noise3D (p - Vec3 0 e 0)) / (2 * e);
          b = (noise3D (p + Vec3 0 0 e) - noise3D (p - Vec3 0 0 e)) / (2 * e);
          c = (noise3D (p + Vec3 e 0 0) - noise3D (p - Vec3 e 0 0)) / (2 * e);
          d = (noise3D (p + Vec3 0 0 e) - noise3D (p - Vec3 0 0 e)) / (2 * e);
          ee = (noise3D (p + Vec3 0 e 0) - noise3D (p - Vec3 0 e 0)) / (2 * e);
          f = (noise3D (p + Vec3 e 0 0) - noise3D (p - Vec3 e 0 0)) / (2 * e)
      in Vec3 (a - d) (b - f) (c - ee))"

text \<open>
  The divergence of a vector field estimated by central differences with step \<open>h\<close>
  along each axis (the estimator of the testable property, not a function of the
  source).
\<close>

definition divergence_cd :: "real \<Rightarrow> (vec3 \<Rightarrow> vec3) \<Rightarrow> vec3 \<Rightarrow> real" where
  "divergence_cd h F p =
     (vx (F (p + Vec3 h 0 0)) - vx (F (p - Vec3 h 0 0))) / (2 * h)
   + (vy (F (p + Vec3 0 h 0)) - vy (F (p - Vec3 0 h 0))) / (2 * h)
   + (vz (F (p + Vec3 0 0 h)) - vz (F (p - Vec3 0 0 h))) / (2 * h)"

section \<open>AgentStateStore: textures and fragment coordinates\<close>

text \<open>
  A compute texture of \<open>W \<times> H\<close> texels is the list of its texels in row order; agent
  \<open>id\<close> is the texel \<open>(id mod W, id div W)\<close>. \<open>texture2D\<close> reads with nearest filtering
  and repeat wrapping (\<open>wrapS = wrapT = RepeatWrapping\<close> in \<open>main.ts\<close>).
  \<open>gl_FragCoord.xy\<close> of a texel is its centre, which is why the shaders read their own
  texel at \<open>gl_FragCoord.xy / resolution.xy\<close> and a neighbour at
  \<open>(px + 0.5) / TEXTURE_WIDTH\<close>.
\<close>

definition texture2D :: "nat \<Rightarrow> nat \<Rightarrow> vec4 list \<Rightarrow> vec2 \<Rightarrow> vec4" where
  "texture2D W H data uv =
     (let x = nat (\<lfloor>fst uv * real W\<rfloor> mod int W);
          y = nat (\<lfloor>snd uv * real H\<rfloor> mod int H)
      in data ! (y * W + x))"

definition gl_FragCoord :: "nat \<Rightarrow> nat \<Rightarrow> vec2" where
  "gl_FragCoord W agent = (real (agent mod W) + 0.5, real (agent div W) + 0.5)"

text \<open>\<open>vec2 uv = gl_FragCoord.xy / resolution.xy\<close>\<close>

definition frag_uv :: "nat \<Rightarrow> nat \<Rightarrow> nat \<Rightarrow> vec2" where
  "frag_uv W H agent = (fst (gl_FragCoord W agent) / real W, snd (gl_FragCoord W agent) / real H)"

section \<open>PositionUpdateKernel (position shader)\<close>

definition position_main :: "real \<Rightarrow> nat \<Rightarrow> nat \<Rightarrow> vec4 list \<Rightarrow> vec4 list \<Rightarrow> nat \<Rightarrow> vec4" where
  "position_main uDelta W H texturePosition textureVelocity agent =
     (let uv = frag_uv W H agent;
          posData = texture2D W H texturePosition uv;
          velData = texture2D W H textureVelocity uv;
          pos = xyz posData;
          vel = xyz velData
      in (pos + uDelta *\<^sub>R vel, snd posData))"

section \<open>NeighborSampler (velocity shader: stride loop)\<close>

definition MAX_SAMPLES :: nat where
  "MAX_SAMPLES = 300"

definition TOTAL_PARTICLES :: "nat \<Rightarrow> nat \<Rightarrow> real" where
  "TOTAL_PARTICLES W H = real W * real H"

definition stride :: "nat \<Rightarrow> nat \<Rightarrow> real" where
  "stride W H = max 1 (of_int \<lfloor>TOTAL_PARTICLES W H / real MAX_SAMPLES\<rfloor>)"

text \<open>The pixel \<open>(px, py)\<close> visited by iteration \<open>i\<close> of the loop.\<close>

definition sample_pixel :: "nat \<Rightarrow> nat \<Rightarrow> nat \<Rightarrow> vec2" where
  "sample_pixel W H i =
     (let idx = real i * stride W H;
          px = mod_f idx (real W);
          py = of_int \<lfloor>idx / real W\<rfloor>
      in (px, py))"

text \<open>The test of \<open>// Skip self\<close>: \<open>abs(px - selfPixel.x) < 0.5 && abs(py - selfPixel.y) < 0.5\<close>.\<close>

definition skip_self :: "vec2 \<Rightarrow> vec2 \<Rightarrow> bool" where
  "skip_self selfPixel p = (\<bar>fst p - fst selfPixel\<bar> < 0.5 \<and> \<bar>snd p - snd selfPixel\<bar> < 0.5)"

text \<open>
  The pixels whose texels the loop of the fragment at \<open>selfPixel\<close> reads: the
  iterations that do not \<open>continue\<close>, in order. The agent id of an in-range pixel with
  integer coordinates is \<open>py * W + px\<close>.
\<close>

definition sampled_pixels :: "nat \<Rightarrow> nat \<Rightarrow> vec2 \<Rightarrow> vec2 list" where
  "sampled_pixels W H selfPixel =
     filter (\<lambda>p. \<not> skip_self selfPixel p) (map (sample_pixel W H) [0..<MAX_SAMPLES])"

definition pixel_id :: "nat \<Rightarrow> vec2 \<Rightarrow> nat" where
  "pixel_id W p = nat \<lfloor>snd p\<rfloor> * W + nat \<lfloor>fst p\<rfloor>"

definition sampled_ids :: "nat \<Rightarrow> nat \<Rightarrow> nat \<Rightarrow> nat list" where
  "sampled_ids W H agent = map (pixel_id W) (sampled_pixels W H (gl_FragCoord W agent))"

text \<open>The stride as a natural number (see \<open>stride_nat\<close>).\<close>

definition stride_n :: "nat \<Rightarrow> nat \<Rightarrow> nat" where
  "stride_n W H = max 1 ((W * H) div 300)"

section \<open>VelocityUpdateKernel (velocity shader)\<close>

record uniforms =
  uDelta :: real
  uTime :: real
  uSeparationWeight :: real
  uAlignmentWeight :: real
  uCohesionWeight :: real
  uMaxSpeed :: real
  uPerceptionRadius :: real
  uBoundaryRadius :: real
  uSeparationRadius :: real
  uTurbulence :: real

record accum =
  separation :: vec3
  alignment :: vec3
  cohesion :: vec3
  separationCount :: real
  alignmentCount :: real
  cohesionCount :: real

definition accum0 :: accum where
  "accum0 = \<lparr>separation = vec3s 0, alignment = vec3s 0, cohesion = vec3s 0,
     separationCount = 0, alignmentCount = 0, cohesionCount = 0\<rparr>"

text \<open>The texel of the pixel \<open>(px, py)\<close>, read at \<open>neighborUV\<close>.\<close>

definition neighbor_texel :: "nat \<Rightarrow> nat \<Rightarrow> vec4 list \<Rightarrow> vec2 \<Rightarrow> vec3" where
  "neighbor_texel W H tex p =
     (let neighborUV = ((fst p + 0.5) / real W, (snd p + 0.5) / real H)
      in xyz (texture2D W H tex neighborUV))"

text \<open>The accumulation of one neighbour (the loop body after \<open>// Skip self\<close>).\<close>

definition accumulate :: "uniforms \<Rightarrow> vec3 \<Rightarrow> vec3 \<Rightarrow> vec3 \<Rightarrow> accum \<Rightarrow> accum option" where
  "accumulate u myPos neighborPos neighborVel acc =
     (let diff = myPos - neighborPos;
          dist = length_v diff
      in do {
        acc1 \<leftarrow> (if dist > 0 \<and> dist < uSeparationRadius u
                 then do {
                   n \<leftarrow> normalize diff;
                   Some (acc\<lparr>separation := separation acc + n /\<^sub>R dist,
                             separationCount := separationCount acc + 1\<rparr>)
                 }
                 else Some acc);
        Some (if dist > 0 \<and> dist < uPerceptionRadius u
              then acc1\<lparr>alignment := alignment acc1 + neighborVel,
                        alignmentCount := alignmentCount acc1 + 1,
                        cohesion := cohesion acc1 + neighborPos,
                        cohesionCount := cohesionCount acc1 + 1\<rparr>
              else acc1)
      })"

text \<open>Iteration \<open>i\<close> of \<open>for (int i = 0; i < MAX_SAMPLES; i++)\<close>.\<close>

definition sample_step ::
  "uniforms \<Rightarrow> nat \<Rightarrow> nat \<Rightarrow> vec4 list \<Rightarrow> vec4 list \<Rightarrow> vec2 \<Rightarrow> vec3 \<Rightarrow> nat \<Rightarrow> accum \<Rightarrow> accum option"
  where
  "sample_step u W H texturePosition textureVelocity selfPixel myPos i acc =
     (let p = sample_pixel W H i
      in if skip_self selfPixel p then Some acc
         else accumulate u myPos (neighbor_texel W H texturePosition p)
                (neighbor_texel W H textureVelocity p) acc)"

fun sample_loop :: "(nat \<Rightarrow> accum \<Rightarrow> accum option) \<Rightarrow> nat list \<Rightarrow> accum \<Rightarrow> accum option" where
  "sample_loop step [] acc = Some acc"
| "sample_loop step (i # rest) acc =
     (case step i acc of None \<Rightarrow> None | Some acc' \<Rightarrow> sample_loop step rest acc')"

text \<open>\<open>if (separationCount > 0.0) { ... }\<close>, with \<open>sampleRatio = TOTAL_PARTICLES / MAX_SAMPLES\<close>.\<close>

definition separation_force :: "uniforms \<Rightarrow> real \<Rightarrow> accum \<Rightarrow> vec3 \<Rightarrow> vec3" where
  "separation_force u sampleRatio acc accel =
     (if separationCount acc > 0
      then (let separation' = separation acc /\<^sub>R separationCount acc;
                scaledSepCount = separationCount acc * sampleRatio
            in accel + min (scaledSepCount / 10) 3 *\<^sub>R (uSeparationWeight u *\<^sub>R separation'))
      else accel)"

definition alignment_force :: "uniforms \<Rightarrow> accum \<Rightarrow> vec3 \<Rightarrow> vec3 \<Rightarrow> vec3 option" where
  "alignment_force u acc myVel accel =
     (if alignmentCount acc > 0
      then (let alignment' = alignment acc /\<^sub>R alignmentCount acc;
                alignSteer = alignment' - myVel;
                alignLen = length_v alignSteer
            in do {
              alignSteer' \<leftarrow> (if alignLen > 0.001 then normalize alignSteer else Some alignSteer);
              Some (accel + uAlignmentWeight u *\<^sub>R alignSteer')
            })
      else Some accel)"

definition cohesion_force :: "uniforms \<Rightarrow> accum \<Rightarrow> vec3 \<Rightarrow> vec3 \<Rightarrow> vec3 option" where
  "cohesion_force u acc myPos accel =
     (if cohesionCount acc > 0
      then (let cohesion' = cohesion acc /\<^sub>R cohesionCount acc;
                toCenter = cohesion' - myPos;
                toCenterLen = length_v toCenter
            in do {
              toCenter' \<leftarrow> (if toCenterLen > 0.001
                            then do {
                              steerStrength \<leftarrow> smoothstep 0 (uPerceptionRadius u) toCenterLen;
                              n \<leftarrow> normalize toCenter;
                              Some (steerStrength *\<^sub>R n)
                            }
                            else Some toCenter);
              Some (accel + uCohesionWeight u *\<^sub>R toCenter')
            })
      else Some accel)"

definition turbulence_force :: "uniforms \<Rightarrow> vec3 \<Rightarrow> vec3 \<Rightarrow> vec3" where
  "turbulence_force u myPos accel =
     (let noisePos = 0.008 *\<^sub>R myPos + vec3s (uTime u * 0.15);
          turbForce = uTurbulence u *\<^sub>R curlNoise noisePos
      in accel + turbForce)"

text \<open>\<open>// Global centroid pull\<close>\<close>

definition centroid_pull :: "uniforms \<Rightarrow> vec3 \<Rightarrow> vec3 \<Rightarrow> vec3 option" where
  "centroid_pull u myPos accel =
     (let distFromCenter = length_v myPos
      in do {
        globalPull \<leftarrow> smoothstep (uBoundaryRadius u * 0.5) (uBoundaryRadius u) distFromCenter;
        n \<leftarrow> normalize (myPos + vec3s 0.0001);
        Some (accel - 0.15 *\<^sub>R (uCohesionWeight u *\<^sub>R (globalPull *\<^sub>R n)))
      })"

text \<open>\<open>// Soft spherical boundary constraint\<close>\<close>

definition soft_boundary :: "uniforms \<Rightarrow> vec3 \<Rightarrow> vec3 \<Rightarrow> vec3 option" where
  "soft_boundary u myPos accel =
     (let distFromCenter = length_v myPos
      in if distFromCenter > uBoundaryRadius u * 0.7
         then (let t = (distFromCenter - uBoundaryRadius u * 0.7) / (uBoundaryRadius u * 0.3);
                   t' = clamp t 0 1;
                   strength = t' * t' * t' * uMaxSpeed u * 2
               in do {
                 n \<leftarrow> normalize myPos;
                 Some (accel - strength *\<^sub>R n)
               })
         else Some accel)"

text \<open>\<open>// Clamp speed\<close> and \<open>// Enforce minimum speed to keep birds moving\<close>\<close>

definition clamp_speed :: "uniforms \<Rightarrow> vec3 \<Rightarrow> vec3 option" where
  "clamp_speed u newVel =
     (let speed = length_v newVel
      in do {
        newVel1 \<leftarrow> (if speed > uMaxSpeed u
                    then do { n \<leftarrow> normalize newVel; Some (uMaxSpeed u *\<^sub>R n) }
                    else Some newVel);
        (let minSpeed = uMaxSpeed u * 0.2
         in if speed < minSpeed \<and> speed > 0.001
            then do { n \<leftarrow> normalize newVel1; Some (minSpeed *\<^sub>R n) }
            else Some newVel1)
      })"

text \<open>
  The acceleration that \<open>main\<close> has accumulated when it reaches
  \<open>// Apply acceleration to velocity\<close>.
\<close>

definition acceleration :: "uniforms \<Rightarrow> nat \<Rightarrow> nat \<Rightarrow> vec4 list \<Rightarrow> vec4 list \<Rightarrow> nat \<Rightarrow> vec3 option" where
  "acceleration u W H texturePosition textureVelocity agent =
     (let uv = frag_uv W H agent;
          myPos = xyz (texture2D W H texturePosition uv);
          myVel = xyz (texture2D W H textureVelocity uv);
          sampleRatio = TOTAL_PARTICLES W H / real MAX_SAMPLES
      in do {
        acc \<leftarrow> sample_loop
                 (sample_step u W H texturePosition textureVelocity (gl_FragCoord W agent) myPos)
                 [0..<MAX_SAMPLES] accum0;
        accel2 \<leftarrow> alignment_force u acc myVel (separation_force u sampleRatio acc (vec3s 0));
        accel3 \<leftarrow> cohesion_force u acc myPos accel2;
        accel5 \<leftarrow> centroid_pull u myPos (turbulence_force u myPos accel3);
        soft_boundary u myPos accel5
      })"

definition velocity_main :: "uniforms \<Rightarrow> nat \<Rightarrow> nat \<Rightarrow> vec4 list \<Rightarrow> vec4 list \<Rightarrow> nat \<Rightarrow> vec4 option" where
  "velocity_main u W H texturePosition textureVelocity agent =
     (let uv = frag_uv W H agent;
          myVel = xyz (texture2D W H textureVelocity uv)
      in do {
        accel \<leftarrow> acceleration u W H texturePosition textureVelocity agent;
        newVel \<leftarrow> clamp_speed u (myVel + uDelta u *\<^sub>R accel);
        Some (newVel, 1)
      })"

text \<open>
  For stating what the loop accumulates: the test \<open>dist > 0.0 && dist < r\<close> on the
  neighbour position \<open>q\<close>, and the positions read by the iterations \<open>ns\<close> that do
  not skip.
\<close>

definition in_range :: "real \<Rightarrow> vec3 \<Rightarrow> vec3 \<Rightarrow> bool" where
  "in_range r myPos q = (length_v (myPos - q) > 0 \<and> length_v (myPos - q) < r)"

definition sampled_positions :: "nat \<Rightarrow> nat \<Rightarrow> vec4 list \<Rightarrow> vec2 \<Rightarrow> nat list \<Rightarrow> vec3 list" where
  "sampled_positions W H texturePosition selfPixel ns =
     map (neighbor_texel W H texturePosition)
       (filter (\<lambda>p. \<not> skip_self selfPixel p) (map (sample_pixel W H) ns))"

section \<open>One tick (\<open>gpuCompute.compute()\<close>)\<close>

text \<open>
  \<open>main.ts\<close> adds the variable \<open>texturePosition\<close> first and \<open>textureVelocity\<close>
  second, makes each depend on both (\<open>// Set dependencies (both shaders read both
  textures)\<close>), and calls \<open>gpuCompute.compute()\<close> once per frame.
  \<open>GPUComputationRenderer\<close> is the three.js add-on that \<open>main.ts\<close> imports; it is not
  part of the repository's sources. Its \<open>compute()\<close> renders the variables in the
  order they were added; for each it binds the \<^emph>\<open>current\<close> render target of every
  dependency to the shader's sampler and renders into the variable's other target;
  the targets are swapped once all variables are rendered. So within a tick both
  shaders read the current generation of both textures, as the specification's
  concurrency model has it (read-only access to the previous generation, write-only
  access to the next). A velocity with an undefined component makes the next state
  undefined.
\<close>

record sim =
  cur_position :: "vec4 list"
  cur_velocity :: "vec4 list"

definition compute :: "uniforms \<Rightarrow> nat \<Rightarrow> nat \<Rightarrow> sim \<Rightarrow> sim option" where
  "compute u W H s =
     (let next_position =
            map (position_main (uDelta u) W H (cur_position s) (cur_velocity s)) [0..<W * H]
      in case those (map (velocity_main u W H (cur_position s) (cur_velocity s)) [0..<W * H]) of
           None \<Rightarrow> None
         | Some next_velocity \<Rightarrow>
             Some \<lparr>cur_position = next_position, cur_velocity = next_velocity\<rparr>)"

section \<open>Initialisation (\<open>main.ts\<close>)\<close>

record params =
  birdCount :: real
  separation_p :: real
  alignment_p :: real
  cohesion_p :: real
  maxSpeed :: real
  perceptionRadius :: real
  separationRadius :: real
  boundaryRadius :: real
  turbulence :: real

definition TEXTURE_WIDTH :: nat where
  "TEXTURE_WIDTH = 512"

definition TEXTURE_HEIGHT :: nat where
  "TEXTURE_HEIGHT = 512"

definition PARTICLE_COUNT :: nat where
  "PARTICLE_COUNT = TEXTURE_WIDTH * TEXTURE_HEIGHT"

definition params0 :: params where
  "params0 = \<lparr>birdCount = real PARTICLE_COUNT, separation_p = 25, alignment_p = 8,
     cohesion_p = 12, maxSpeed = 50, perceptionRadius = 120, separationRadius = 25,
     boundaryRadius = 350, turbulence = 15\<rparr>"

text \<open>The uniforms as \<open>main.ts\<close> first sets them (\<open>velUniforms\<close>).\<close>

definition uniforms0 :: uniforms where
  "uniforms0 = \<lparr>uDelta = 0, uTime = 0, uSeparationWeight = separation_p params0,
     uAlignmentWeight = alignment_p params0, uCohesionWeight = cohesion_p params0,
     uMaxSpeed = maxSpeed params0, uPerceptionRadius = perceptionRadius params0,
     uBoundaryRadius = boundaryRadius params0, uSeparationRadius = separationRadius params0,
     uTurbulence = turbulence params0\<rparr>"


text \<open>
  The uniforms with the four force sliders of the panel at 0 and a frame delta of
  0.01 (below the clamp \<open>Math.min(delta, 0.05)\<close>).
\<close>

definition uniforms_drift :: uniforms where
  "uniforms_drift = uniforms0\<lparr>uDelta := 0.01, uSeparationWeight := 0, uAlignmentWeight := 0,
     uCohesionWeight := 0, uTurbulence := 0\<rparr>"

text \<open>
  \<open>Math.random()\<close> is a stream \<open>rnd\<close> of numbers read at a counter \<open>c\<close>; each call
  returns \<open>rnd c\<close> and advances the counter. The loops run once per texel
  (\<open>i += 4\<close> over \<open>data.length = 4 * W * H\<close>); \<open>n\<close> is the number of texels left.
\<close>

fun fillPositionTexture :: "params \<Rightarrow> (nat \<Rightarrow> real) \<Rightarrow> nat \<Rightarrow> nat \<Rightarrow> vec4 list" where
  "fillPositionTexture ps rnd c 0 = []"
| "fillPositionTexture ps rnd c (Suc n) =
     (let spread = boundaryRadius ps * 0.6;
          r = rnd c * spread;
          theta = rnd (c + 1) * pi * 2;
          phi = arccos (2 * rnd (c + 2) - 1)
      in (Vec3 (r * sin phi * cos theta) (r * sin phi * sin theta) (r * cos phi), 1)
         # fillPositionTexture ps rnd (c + 3) n)"

fun fillVelocityTexture :: "params \<Rightarrow> (nat \<Rightarrow> real) \<Rightarrow> nat \<Rightarrow> nat \<Rightarrow> vec4 list" where
  "fillVelocityTexture ps rnd c 0 = []"
| "fillVelocityTexture ps rnd c (Suc n) =
     (let initSpeed = maxSpeed ps * 0.3;
          theta = rnd c * pi * 2;
          phi = arccos (2 * rnd (c + 1) - 1)
      in (Vec3 (initSpeed * sin phi * cos theta) (initSpeed * sin phi * sin theta)
               (initSpeed * cos phi), 1)
         # fillVelocityTexture ps rnd (c + 2) n)"

text \<open>
  \<open>fillPositionTexture(dtPosition); fillVelocityTexture(dtVelocity);\<close> on two textures
  of \<open>W * H\<close> texels: the position texture takes the first \<open>3 * W * H\<close> random numbers.
\<close>

definition init_sim :: "params \<Rightarrow> (nat \<Rightarrow> real) \<Rightarrow> nat \<Rightarrow> nat \<Rightarrow> sim" where
  "init_sim ps rnd W H =
     \<lparr>cur_position = fillPositionTexture ps rnd 0 (W * H),
      cur_velocity = fillVelocityTexture ps rnd (3 * (W * H)) (W * H)\<rparr>"

section \<open>Vector algebra\<close>

lemma vec3_plus_simp [simp]:
  "Vec3 a b c + Vec3 a' b' c' = Vec3 (a + a') (b + b') (c + c')"
  by (simp add: plus_vec3_def)

lemma vec3_minus_simp [simp]:
  "Vec3 a b c - Vec3 a' b' c' = Vec3 (a - a') (b - b') (c - c')"
  by (simp add: minus_vec3_def)

lemma vec3_uminus_simp [simp]: "- Vec3 a b c = Vec3 (- a) (- b) (- c)"
  by (simp add: uminus_vec3_def)

lemma vec3_scaleR_simp [simp]: "k *\<^sub>R Vec3 a b c = Vec3 (k * a) (k * b) (k * c)"
  by (simp add: scaleR_vec3_def)

lemma vec3s_simp [simp]: "vec3s s = Vec3 s s s"
  by (simp add: vec3s_def)

lemma zero_vec3_simp: "(0 :: vec3) = Vec3 0 0 0"
  by (simp add: zero_vec3_def)

lemma dot_self_nonneg: "0 \<le> dot v v"
  by (simp add: dot_def)

lemma length_v_nonneg [simp]: "0 \<le> length_v v"
  by (simp add: length_v_def dot_self_nonneg)

lemma length_v_eq_0_iff: "length_v v = 0 \<longleftrightarrow> v = Vec3 0 0 0"
proof (cases v)
  case (Vec3 a b c)
  have "a * a + b * b + c * c = 0 \<longleftrightarrow> a = 0 \<and> b = 0 \<and> c = 0"
    by (metis add_nonneg_eq_0_iff mult_eq_0_iff zero_le_square add_nonneg_nonneg)
  then show ?thesis
    using Vec3 by (simp add: length_v_def dot_def)
qed

lemma length_v_scaleR: "length_v (c *\<^sub>R v) = \<bar>c\<bar> * length_v v"
proof (cases v)
  case (Vec3 x y z)
  have "c * x * (c * x) + c * y * (c * y) + c * z * (c * z) = c\<^sup>2 * (x * x + y * y + z * z)"
    by (simp add: power2_eq_square algebra_simps)
  then show ?thesis
    using Vec3 by (simp add: length_v_def dot_def real_sqrt_mult)
qed

lemma length_v_axis [simp]: "length_v (Vec3 a 0 0) = \<bar>a\<bar>"
  by (simp add: length_v_def dot_def)

lemma normalize_Some:
  "length_v v \<noteq> 0 \<Longrightarrow> normalize v = Some ((1 / length_v v) *\<^sub>R v)"
  by (simp add: normalize_def)

lemma normalize_length:
  assumes "normalize v = Some n"
  shows "length_v n = 1"
proof -
  have nz: "length_v v \<noteq> 0" and n: "n = (1 / length_v v) *\<^sub>R v"
    using assms by (auto simp: normalize_def split: if_splits)
  have "length_v n = \<bar>1 / length_v v\<bar> * length_v v"
    unfolding n by (rule length_v_scaleR)
  also have "\<dots> = 1" using nz length_v_nonneg [of v] by simp
  finally show ?thesis .
qed

lemma texture2D_self:
  assumes "agent < W * H"
  shows "texture2D W H data (frag_uv W H agent) = data ! agent"
proof -
  have W: "0 < W" and H: "0 < H" using assms by (cases W; cases H; simp)+
  have dH: "agent div W < H"
    using assms W by (simp add: less_mult_imp_div_less mult.commute)
  have fx: "\<lfloor>(real (agent mod W) + 0.5) / real W * real W\<rfloor> = int (agent mod W)"
    using W by (simp add: floor_eq_iff)
  have fy: "\<lfloor>(real (agent div W) + 0.5) / real H * real H\<rfloor> = int (agent div W)"
    using H by (simp add: floor_eq_iff)
  show ?thesis
    using W H dH by (simp add: texture2D_def frag_uv_def gl_FragCoord_def fx fy Let_def)
qed


section \<open>The stride loop visits the pixels of the ids \<open>0, S, 2S, ...\<close>\<close>

lemma stride_nat: "stride W H = real (stride_n W H)"
proof -
  have "\<lfloor>real W * real H / 300\<rfloor> = int ((W * H) div 300)"
    using floor_divide_of_nat_eq [of "W * H" 300, where ?'a = real] by simp
  then show ?thesis
    by (simp add: stride_def stride_n_def TOTAL_PARTICLES_def MAX_SAMPLES_def max_def)
qed

lemma mod_f_nat:
  assumes "0 < W"
  shows "mod_f (real m) (real W) = real (m mod W)"
proof -
  have "\<lfloor>real m / real W\<rfloor> = int (m div W)"
    by (rule floor_divide_of_nat_eq)
  moreover have "real m = real W * real (m div W) + real (m mod W)"
    by (metis of_nat_add of_nat_mult mult_div_mod_eq)
  ultimately show ?thesis by (simp add: mod_f_def)
qed

lemma sample_pixel_nat:
  assumes "0 < W"
  shows "sample_pixel W H i = (real ((i * stride_n W H) mod W), real ((i * stride_n W H) div W))"
proof -
  have idx: "real i * stride W H = real (i * stride_n W H)"
    by (simp add: stride_nat)
  have "\<lfloor>real (i * stride_n W H) / real W\<rfloor> = int ((i * stride_n W H) div W)"
    by (rule floor_divide_of_nat_eq)
  moreover have "mod_f (real (i * stride_n W H)) (real W) = real ((i * stride_n W H) mod W)"
    by (rule mod_f_nat [OF assms])
  ultimately show ?thesis
    unfolding sample_pixel_def Let_def idx by (simp only: of_int_of_nat_eq)
qed

lemma skip_self_never:
  "\<not> skip_self (gl_FragCoord W agent) (real a, real b)"
proof -
  have "\<not> \<bar>real a - (real (agent mod W) + 0.5)\<bar> < 0.5"
  proof
    assume h: "\<bar>real a - (real (agent mod W) + 0.5)\<bar> < 0.5"
    then have "real (agent mod W) < real a" "real a < real (agent mod W + 1)"
      by (simp_all only: of_nat_add of_nat_1)
    then have "agent mod W < a" "a < agent mod W + 1"
      by (simp_all only: of_nat_less_iff)
    then show False by simp
  qed
  then show ?thesis by (simp add: skip_self_def gl_FragCoord_def)
qed

lemma sampled_pixels_all:
  assumes "0 < W"
  shows "sampled_pixels W H (gl_FragCoord W agent) = map (sample_pixel W H) [0..<MAX_SAMPLES]"
  unfolding sampled_pixels_def
  by (rule filter_True) (auto simp: sample_pixel_nat [OF assms] skip_self_never)

lemma pixel_id_nat:
  assumes "0 < W"
  shows "pixel_id W (real (m mod W), real (m div W)) = m"
  by (simp add: pixel_id_def)

lemma sampled_ids_stride:
  assumes "0 < W"
  shows "sampled_ids W H agent = map (\<lambda>i. i * stride_n W H) [0..<MAX_SAMPLES]"
  by (simp add: sampled_ids_def sampled_pixels_all [OF assms] sample_pixel_nat [OF assms]
      pixel_id_nat [OF assms] comp_def)

section \<open>The accumulation loop\<close>

lemma accumulate_total: "\<exists>acc'. accumulate u myPos np nv acc = Some acc'"
  by (simp add: accumulate_def Let_def normalize_def)

lemma accumulate_separation:
  assumes "accumulate u myPos np nv acc = Some acc'"
  shows "separation acc' = separation acc +
           (if in_range (uSeparationRadius u) myPos np
            then (myPos - np) /\<^sub>R (length_v (myPos - np))\<^sup>2 else 0)"
    and "separationCount acc' = separationCount acc +
           (if in_range (uSeparationRadius u) myPos np then 1 else 0)"
  using assms
  by (auto simp: accumulate_def Let_def normalize_def in_range_def power2_eq_square
      divide_inverse split: if_splits)

lemma sample_step_cases:
  "sample_step u W H tp tv sp myPos i acc =
     (if skip_self sp (sample_pixel W H i) then Some acc
      else accumulate u myPos (neighbor_texel W H tp (sample_pixel W H i))
             (neighbor_texel W H tv (sample_pixel W H i)) acc)"
  by (simp add: sample_step_def Let_def)

lemma sample_loop_separation:
  "\<exists>acc'. sample_loop (sample_step u W H tp tv sp myPos) ns acc = Some acc' \<and>
     separation acc' = separation acc +
       sum_list (map (\<lambda>q. (myPos - q) /\<^sub>R (length_v (myPos - q))\<^sup>2)
         (filter (in_range (uSeparationRadius u) myPos) (sampled_positions W H tp sp ns))) \<and>
     separationCount acc' = separationCount acc +
       real (length (filter (in_range (uSeparationRadius u) myPos) (sampled_positions W H tp sp ns)))"
proof (induction ns arbitrary: acc)
  case Nil
  then show ?case by (simp add: sampled_positions_def)
next
  case (Cons i ns)
  show ?case
  proof (cases "skip_self sp (sample_pixel W H i)")
    case True
    then show ?thesis
      using Cons.IH [of acc] by (simp add: sample_step_cases sampled_positions_def)
  next
    case False
    obtain acc1 where a1: "accumulate u myPos (neighbor_texel W H tp (sample_pixel W H i))
             (neighbor_texel W H tv (sample_pixel W H i)) acc = Some acc1"
      using accumulate_total by blast
    show ?thesis
      using Cons.IH [of acc1] False a1 accumulate_separation [OF a1]
      by (auto simp: sample_step_cases sampled_positions_def add.assoc)
  qed
qed


lemma separation_force_closed:
  "separation_force u sampleRatio acc accel =
     (if separationCount acc > 0
      then accel + (uSeparationWeight u * min (separationCount acc * sampleRatio / 10) 3) *\<^sub>R
             (separation acc /\<^sub>R separationCount acc)
      else accel)"
  by (simp add: separation_force_def Let_def mult.commute)

section \<open>The speed clamp\<close>

lemma length_v_pos_normalize:
  "0 < length_v v \<Longrightarrow> normalize v = Some ((1 / length_v v) *\<^sub>R v)"
  by (simp add: normalize_def)

lemma clamp_speed_cases:
  assumes "0 < uMaxSpeed u"
  shows "clamp_speed u newVel =
     Some (if length_v newVel > uMaxSpeed u
           then (uMaxSpeed u / length_v newVel) *\<^sub>R newVel
           else if length_v newVel < uMaxSpeed u * 0.2 \<and> length_v newVel > 0.001
           then (uMaxSpeed u * 0.2 / length_v newVel) *\<^sub>R newVel
           else newVel)"
proof -
  consider (fast) "length_v newVel > uMaxSpeed u"
    | (slow) "length_v newVel \<le> uMaxSpeed u" "length_v newVel < uMaxSpeed u * 0.2"
        "length_v newVel > 0.001"
    | (mid) "length_v newVel \<le> uMaxSpeed u"
        "\<not> (length_v newVel < uMaxSpeed u * 0.2 \<and> length_v newVel > 0.001)"
    by linarith
  then show ?thesis
  proof cases
    case fast
    then have pos: "0 < length_v newVel" and nslow: "\<not> length_v newVel < uMaxSpeed u * 0.2"
      using assms by linarith+
    show ?thesis
      using fast nslow by (simp add: clamp_speed_def Let_def length_v_pos_normalize [OF pos])
  next
    case slow
    have "(0::real) < 0.001" by simp
    from this slow(3) have pos: "0 < length_v newVel" by (rule less_trans)
    show ?thesis
      using slow by (simp add: clamp_speed_def Let_def length_v_pos_normalize [OF pos])
  next
    case mid
    then show ?thesis
      by (auto simp add: clamp_speed_def Let_def)
  qed
qed

lemma length_v_rescale:
  assumes "0 < length_v v" "0 \<le> m"
  shows "length_v ((m / length_v v) *\<^sub>R v) = m"
  using assms by (simp add: length_v_scaleR)

lemma clamp_speed_bounds:
  assumes M: "0 < uMaxSpeed u"
  shows "\<exists>v. clamp_speed u newVel = Some v
           \<and> length_v v \<le> uMaxSpeed u
           \<and> (if length_v newVel > uMaxSpeed u then length_v v = uMaxSpeed u
              else if length_v newVel > 0.001 then length_v v \<ge> 0.2 * uMaxSpeed u
              else v = newVel)"
proof -
  consider (fast) "length_v newVel > uMaxSpeed u"
    | (slow) "length_v newVel \<le> uMaxSpeed u" "length_v newVel < uMaxSpeed u * 0.2"
        "length_v newVel > 0.001"
    | (mid) "length_v newVel \<le> uMaxSpeed u"
        "\<not> (length_v newVel < uMaxSpeed u * 0.2 \<and> length_v newVel > 0.001)"
    by linarith
  then show ?thesis
  proof cases
    case fast
    then have pos: "0 < length_v newVel" using M by linarith
    show ?thesis
      using fast M length_v_rescale [OF pos, of "uMaxSpeed u"]
      by (simp add: clamp_speed_cases [OF M])
  next
    case slow
    have "(0::real) < 0.001" by simp
    from this slow(3) have pos: "0 < length_v newVel" by (rule less_trans)
    show ?thesis
      using slow M length_v_rescale [OF pos, of "uMaxSpeed u * 0.2"]
      by (simp add: clamp_speed_cases [OF M])
  next
    case mid
    then show ?thesis
      using M by (auto simp add: clamp_speed_cases [OF M])
  qed
qed

section \<open>Where the acceleration is defined\<close>

lemma sample_loop_cohesion_guard:
  assumes "sample_loop (sample_step u W H tp tv sp myPos) ns acc = Some acc'"
    and "0 \<le> cohesionCount acc"
    and "0 < cohesionCount acc \<longrightarrow> 0 < uPerceptionRadius u"
  shows "0 \<le> cohesionCount acc' \<and> (0 < cohesionCount acc' \<longrightarrow> 0 < uPerceptionRadius u)"
  using assms
proof (induction ns arbitrary: acc)
  case Nil
  then show ?case by simp
next
  case (Cons i ns)
  obtain acc1 where s1: "sample_step u W H tp tv sp myPos i acc = Some acc1"
    and rest: "sample_loop (sample_step u W H tp tv sp myPos) ns acc1 = Some acc'"
    using Cons.prems(1) by (auto split: option.splits)
  have "0 \<le> cohesionCount acc1 \<and> (0 < cohesionCount acc1 \<longrightarrow> 0 < uPerceptionRadius u)"
    using s1 Cons.prems(2,3)
    by (auto simp: sample_step_cases accumulate_def Let_def normalize_def split: if_splits)
  then show ?case
    using Cons.IH [OF rest] by blast
qed

lemma sample_loop_total:
  "\<exists>acc'. sample_loop (sample_step u W H tp tv sp myPos) ns acc = Some acc'"
  using sample_loop_separation by blast

lemma normalize_far: "length_v v > 0.001 \<Longrightarrow> normalize v = Some ((1 / length_v v) *\<^sub>R v)"
  by (auto simp: normalize_def)

lemma alignment_force_total: "\<exists>a. alignment_force u acc myVel accel = Some a"
  by (simp add: alignment_force_def Let_def normalize_far)

lemma smoothstep_total: "e0 < e1 \<Longrightarrow> \<exists>t. smoothstep e0 e1 x = Some t"
  by (simp add: smoothstep_def Let_def)

lemma cohesion_force_total:
  assumes "0 < cohesionCount acc \<longrightarrow> 0 < uPerceptionRadius u"
  shows "\<exists>a. cohesion_force u acc myPos accel = Some a"
proof (cases "0 < cohesionCount acc")
  case True
  then have "0 < uPerceptionRadius u" using assms by simp
  then obtain t where t: "\<And>x. \<exists>t. smoothstep 0 (uPerceptionRadius u) x = Some t"
    using smoothstep_total by blast
  show ?thesis
  proof (cases "length_v (cohesion acc /\<^sub>R cohesionCount acc - myPos) > 0.001")
    case far: True
    obtain s where "smoothstep 0 (uPerceptionRadius u)
        (length_v (cohesion acc /\<^sub>R cohesionCount acc - myPos)) = Some s"
      using t by blast
    then show ?thesis
      using True far by (simp add: cohesion_force_def Let_def normalize_far)
  next
    case False
    then show ?thesis
      using True by (simp add: cohesion_force_def Let_def)
  qed
next
  case False
  then show ?thesis by (simp add: cohesion_force_def)
qed

lemma soft_boundary_closed:
  assumes "0 < uBoundaryRadius u"
  shows "soft_boundary u myPos accel =
     Some (if length_v myPos > uBoundaryRadius u * 0.7
           then accel - ((clamp ((length_v myPos - uBoundaryRadius u * 0.7) / (uBoundaryRadius u * 0.3)) 0 1) ^ 3
                    * uMaxSpeed u * 2 / length_v myPos) *\<^sub>R myPos
           else accel)"
proof (cases "length_v myPos > uBoundaryRadius u * 0.7")
  case True
  moreover have "0 < uBoundaryRadius u * 0.7" using assms by simp
  ultimately have "0 < length_v myPos" by (rule less_trans [rotated])
  then show ?thesis
    using True by (simp add: soft_boundary_def Let_def length_v_pos_normalize power3_eq_cube)
next
  case False
  then show ?thesis by (simp add: soft_boundary_def Let_def)
qed

lemma centroid_pull_total:
  assumes "0 < uBoundaryRadius u" "myPos + vec3s 0.0001 \<noteq> 0"
  shows "\<exists>a. centroid_pull u myPos accel = Some a"
proof -
  obtain g where "smoothstep (uBoundaryRadius u * 0.5) (uBoundaryRadius u) (length_v myPos) = Some g"
    using smoothstep_total [of "uBoundaryRadius u * 0.5" "uBoundaryRadius u"] assms(1) by auto
  moreover have "length_v (myPos + vec3s 0.0001) \<noteq> 0"
    using assms(2) by (simp add: length_v_eq_0_iff zero_vec3_simp)
  ultimately show ?thesis
    by (simp add: centroid_pull_def Let_def normalize_def)
qed

lemma acceleration_total:
  assumes "0 < uBoundaryRadius u"
    and "xyz (texture2D W H tp (frag_uv W H agent)) + vec3s 0.0001 \<noteq> 0"
  shows "\<exists>a. acceleration u W H tp tv agent = Some a"
proof -
  define myPos where "myPos = xyz (texture2D W H tp (frag_uv W H agent))"
  define myVel where "myVel = xyz (texture2D W H tv (frag_uv W H agent))"
  obtain acc where acc: "sample_loop (sample_step u W H tp tv (gl_FragCoord W agent) myPos)
      [0..<MAX_SAMPLES] accum0 = Some acc"
    using sample_loop_total by blast
  have guard: "0 < cohesionCount acc \<longrightarrow> 0 < uPerceptionRadius u"
    using sample_loop_cohesion_guard [OF acc] by (simp add: accum0_def)
  obtain a2 where a2: "alignment_force u acc myVel
      (separation_force u (TOTAL_PARTICLES W H / real MAX_SAMPLES) acc (vec3s 0)) = Some a2"
    using alignment_force_total by blast
  obtain a3 where a3: "cohesion_force u acc myPos a2 = Some a3"
    using cohesion_force_total [OF guard] by blast
  obtain a5 where a5: "centroid_pull u myPos (turbulence_force u myPos a3) = Some a5"
    using centroid_pull_total [OF assms(1)] assms(2) myPos_def by blast
  show ?thesis
    unfolding acceleration_def Let_def
    using acc a2 a3 a5 soft_boundary_closed [OF assms(1)]
    by (simp add: myPos_def myVel_def)
qed

section \<open>Zero force weights, one tick, and two one-agent states\<close>

lemma texture2D_single [simp]:
  "texture2D 1 1 [t] uv = t" "texture2D (Suc 0) (Suc 0) [t] uv = t"
  by (simp_all add: texture2D_def)

lemma centroid_pull_zero_weight:
  assumes "0 < uBoundaryRadius u" "myPos + vec3s 0.0001 \<noteq> 0" "uCohesionWeight u = 0"
  shows "centroid_pull u myPos accel = Some accel"
proof -
  obtain g where "smoothstep (uBoundaryRadius u * 0.5) (uBoundaryRadius u) (length_v myPos) = Some g"
    using smoothstep_total [of "uBoundaryRadius u * 0.5" "uBoundaryRadius u"] assms(1) by auto
  moreover have "length_v (myPos + vec3s 0.0001) \<noteq> 0"
    using assms(2) by (simp add: length_v_eq_0_iff zero_vec3_simp)
  ultimately show ?thesis
    using assms(3) by (simp add: centroid_pull_def Let_def normalize_def)
qed

lemma alignment_force_zero_weight:
  "uAlignmentWeight u = 0 \<Longrightarrow> alignment_force u acc myVel accel = Some accel"
  by (simp add: alignment_force_def Let_def normalize_far)

lemma cohesion_force_zero_weight:
  assumes "0 < cohesionCount acc \<longrightarrow> 0 < uPerceptionRadius u" "uCohesionWeight u = 0"
  shows "cohesion_force u acc myPos accel = Some accel"
proof (cases "0 < cohesionCount acc")
  case True
  then have "0 < uPerceptionRadius u" using assms by simp
  then have "\<exists>t. smoothstep 0 (uPerceptionRadius u) x = Some t" for x
    using smoothstep_total by blast
  then obtain s where "smoothstep 0 (uPerceptionRadius u)
        (length_v (cohesion acc /\<^sub>R cohesionCount acc - myPos)) = Some s"
    by blast
  then show ?thesis
    using True assms(2) by (simp add: cohesion_force_def Let_def normalize_far)
next
  case False
  then show ?thesis by (simp add: cohesion_force_def)
qed

lemma acceleration_zero_weights:
  assumes R: "0 < uBoundaryRadius u"
    and nz: "xyz (texture2D W H tp (frag_uv W H agent)) + vec3s 0.0001 \<noteq> 0"
    and w: "uSeparationWeight u = 0" "uAlignmentWeight u = 0" "uCohesionWeight u = 0"
      "uTurbulence u = 0"
  shows "acceleration u W H tp tv agent =
           soft_boundary u (xyz (texture2D W H tp (frag_uv W H agent))) 0"
proof -
  define myPos where "myPos = xyz (texture2D W H tp (frag_uv W H agent))"
  define myVel where "myVel = xyz (texture2D W H tv (frag_uv W H agent))"
  obtain acc where acc: "sample_loop (sample_step u W H tp tv (gl_FragCoord W agent) myPos)
      [0..<MAX_SAMPLES] accum0 = Some acc"
    using sample_loop_total by blast
  have guard: "0 < cohesionCount acc \<longrightarrow> 0 < uPerceptionRadius u"
    using sample_loop_cohesion_guard [OF acc] by (simp add: accum0_def)
  have s: "separation_force u (TOTAL_PARTICLES W H / real MAX_SAMPLES) acc (vec3s 0) = 0"
    using w(1) by (simp add: separation_force_closed zero_vec3_simp)
  have t: "turbulence_force u myPos 0 = 0"
    using w(4) by (simp add: turbulence_force_def Let_def)
  show ?thesis
    unfolding acceleration_def Let_def
    using acc s t alignment_force_zero_weight [OF w(2)]
      cohesion_force_zero_weight [OF guard w(3)]
      centroid_pull_zero_weight [OF R _ w(3)] nz
    by (simp add: myPos_def myVel_def)
qed

lemma uniforms_drift_simps [simp]:
  "uDelta uniforms_drift = 0.01" "uSeparationWeight uniforms_drift = 0"
  "uAlignmentWeight uniforms_drift = 0" "uCohesionWeight uniforms_drift = 0"
  "uTurbulence uniforms_drift = 0" "uMaxSpeed uniforms_drift = 50"
  "uBoundaryRadius uniforms_drift = 350"
  by (simp_all add: uniforms_drift_def uniforms0_def params0_def)

lemma acceleration_drift_origin:
  "acceleration uniforms_drift 1 1 [(Vec3 0 0 0, w)] [(v, w')] 0 = Some 0"
proof -
  have "acceleration uniforms_drift 1 1 [(Vec3 0 0 0, w)] [(v, w')] 0 =
          soft_boundary uniforms_drift (xyz (texture2D 1 1 [(Vec3 0 0 0, w)] (frag_uv 1 1 0))) 0"
    by (rule acceleration_zero_weights) (simp_all add: xyz_def zero_vec3_simp)
  then show ?thesis
    by (simp add: soft_boundary_closed xyz_def dot_def length_v_def)
qed

lemma acceleration_drift_boundary:
  "acceleration uniforms_drift 1 1 [(Vec3 350 0 0, w)] [(v, w')] 0 = Some (Vec3 (- 100) 0 0)"
proof -
  have "acceleration uniforms_drift 1 1 [(Vec3 350 0 0, w)] [(v, w')] 0 =
          soft_boundary uniforms_drift (xyz (texture2D 1 1 [(Vec3 350 0 0, w)] (frag_uv 1 1 0))) 0"
    by (rule acceleration_zero_weights) (simp_all add: xyz_def zero_vec3_simp)
  then show ?thesis
    by (simp add: soft_boundary_closed xyz_def clamp_def zero_vec3_simp)
qed

lemma velocity_main_drift_origin:
  "velocity_main uniforms_drift 1 1 [(Vec3 0 0 0, 1)] [(Vec3 1 0 0, 1)] 0 = Some (Vec3 10 0 0, 1)"
  using acceleration_drift_origin [of 1 "Vec3 1 0 0" 1]
  by (simp add: velocity_main_def Let_def clamp_speed_cases xyz_def zero_vec3_simp)

lemma velocity_main_drift_boundary:
  "velocity_main uniforms_drift 1 1 [(Vec3 350 0 0, 1)] [(Vec3 1 0 0, 1)] 0 = Some (Vec3 0 0 0, 1)"
  using acceleration_drift_boundary [of 1 "Vec3 1 0 0" 1]
  by (simp add: velocity_main_def Let_def clamp_speed_cases xyz_def)

lemma those_map_nth:
  "those (map f xs) = Some ys \<Longrightarrow> i < length xs \<Longrightarrow> f (xs ! i) = Some (ys ! i)"
proof (induction xs arbitrary: ys i)
  case Nil
  then show ?case by simp
next
  case (Cons x xs)
  then show ?case
    by (cases i) (auto split: option.splits)
qed

lemma compute_velocity:
  assumes "compute u W H s = Some s'" "agent < W * H"
  shows "velocity_main u W H (cur_position s) (cur_velocity s) agent
           = Some (cur_velocity s' ! agent)"
proof -
  obtain vs where vs: "those (map (velocity_main u W H (cur_position s) (cur_velocity s))
      [0..<W * H]) = Some vs" and s': "cur_velocity s' = vs"
    using assms(1) by (auto simp: compute_def Let_def split: option.splits)
  show ?thesis
    using those_map_nth [OF vs, of agent] assms(2) s' by simp
qed

lemma compute_position:
  assumes "compute u W H s = Some s'" "agent < W * H"
  shows "cur_position s' ! agent
           = position_main (uDelta u) W H (cur_position s) (cur_velocity s) agent"
  using assms by (auto simp: compute_def Let_def split: option.splits)

lemma position_main_self:
  assumes "agent < W * H"
  shows "position_main dt W H tp tv agent
           = (xyz (tp ! agent) + dt *\<^sub>R xyz (tv ! agent), snd (tp ! agent))"
  by (simp add: position_main_def Let_def texture2D_self [OF assms])

lemma compute_drift_boundary:
  "compute uniforms_drift 1 1 \<lparr>cur_position = [(Vec3 350 0 0, 1)], cur_velocity = [(Vec3 1 0 0, 1)]\<rparr>
    = Some \<lparr>cur_position = [(Vec3 350.01 0 0, 1)], cur_velocity = [(Vec3 0 0 0, 1)]\<rparr>"
  using velocity_main_drift_boundary
  by (simp add: compute_def Let_def position_main_self xyz_def)

lemma compute_drift_origin:
  "compute uniforms_drift 1 1 \<lparr>cur_position = [(Vec3 0 0 0, 1)], cur_velocity = [(Vec3 1 0 0, 1)]\<rparr>
    = Some \<lparr>cur_position = [(Vec3 0.01 0 0, 1)], cur_velocity = [(Vec3 10 0 0, 1)]\<rparr>"
  using velocity_main_drift_origin
  by (simp add: compute_def Let_def position_main_self xyz_def)

lemma velocity_main_bind:
  "velocity_main u W H tp tv agent =
     acceleration u W H tp tv agent \<bind>
       (\<lambda>accel. clamp_speed u (xyz (texture2D W H tv (frag_uv W H agent)) + uDelta u *\<^sub>R accel)
          \<bind> (\<lambda>newVel. Some (newVel, 1)))"
  by (simp add: velocity_main_def Let_def)

section \<open>The undefined point, drift under zero force, and the boundary force\<close>

lemma centroid_pull_undefined:
  assumes "myPos + vec3s 0.0001 = 0"
  shows "centroid_pull u myPos accel = None"
proof -
  have "normalize (myPos + vec3s 0.0001) = None"
    unfolding assms by (simp add: normalize_def length_v_def dot_def zero_vec3_simp)
  then show ?thesis
    by (cases "smoothstep (uBoundaryRadius u * 0.5) (uBoundaryRadius u) (length_v myPos)")
      (simp_all add: centroid_pull_def Let_def)
qed

lemma acceleration_undefined:
  assumes "xyz (texture2D W H tp (frag_uv W H agent)) + vec3s 0.0001 = 0"
  shows "acceleration u W H tp tv agent = None"
  unfolding acceleration_def Let_def
  by (simp add: centroid_pull_undefined [OF assms] split: Option.bind_splits)

lemma acceleration_SomeD:
  assumes "acceleration u W H tp tv agent = Some a"
  shows "0 < uBoundaryRadius u"
    and "xyz (texture2D W H tp (frag_uv W H agent)) + vec3s 0.0001 \<noteq> 0"
proof -
  obtain x g n where g: "smoothstep (uBoundaryRadius u * 0.5) (uBoundaryRadius u) x = Some g"
    and n: "normalize (xyz (texture2D W H tp (frag_uv W H agent)) + vec3s 0.0001) = Some n"
    using assms
    by (auto simp: acceleration_def Let_def centroid_pull_def bind_eq_Some_conv)
  show "0 < uBoundaryRadius u"
    using g by (simp add: smoothstep_def split: if_splits)
  show "xyz (texture2D W H tp (frag_uv W H agent)) + vec3s 0.0001 \<noteq> 0"
    using n by (auto simp: normalize_def length_v_eq_0_iff zero_vec3_simp split: if_splits)
qed

lemma clamp_speed_id:
  assumes "length_v v \<le> uMaxSpeed u"
    and "uMaxSpeed u * 0.2 \<le> length_v v \<or> length_v v \<le> 0.001"
  shows "clamp_speed u v = Some v"
  using assms by (auto simp: clamp_speed_def Let_def)

lemma velocity_main_drift_cruise:
  "velocity_main uniforms_drift 1 1 [(Vec3 0 0 0, 1)] [(Vec3 20 0 0, 1)] 0
     = Some (Vec3 20 0 0, 1)"
  using acceleration_drift_origin [of 1 "Vec3 20 0 0" 1]
  by (simp add: velocity_main_bind clamp_speed_cases xyz_def zero_vec3_simp)

lemma velocity_main_total:
  assumes "0 < uBoundaryRadius u" "0 < uMaxSpeed u"
    and "xyz (texture2D W H tp (frag_uv W H agent)) + vec3s 0.0001 \<noteq> 0"
  shows "\<exists>v. velocity_main u W H tp tv agent = Some (v, 1)"
proof -
  obtain a where a: "acceleration u W H tp tv agent = Some a"
    using acceleration_total [OF assms(1,3)] by blast
  obtain v where "clamp_speed u (xyz (texture2D W H tv (frag_uv W H agent)) + uDelta u *\<^sub>R a)
      = Some v"
    using clamp_speed_bounds [OF assms(2)] by blast
  then show ?thesis
    using a by (simp add: velocity_main_bind)
qed

lemma length_v_unit:
  assumes "0 < length_v v"
  shows "length_v ((1 / length_v v) *\<^sub>R v) = 1"
  using assms by (simp add: length_v_scaleR)

lemma velocity_main_speed_bound:
  assumes "0 < uMaxSpeed u" "acceleration u W H tp tv agent = Some accel"
  shows "\<exists>v. velocity_main u W H tp tv agent = Some (v, 1)
           \<and> length_v v \<le> uMaxSpeed u
           \<and> (uMaxSpeed u
                 < length_v (xyz (texture2D W H tv (frag_uv W H agent)) + uDelta u *\<^sub>R accel)
               \<longrightarrow> length_v v = uMaxSpeed u)"
  using clamp_speed_bounds [OF assms(1),
      of "xyz (texture2D W H tv (frag_uv W H agent)) + uDelta u *\<^sub>R accel"] assms
  by (auto simp: velocity_main_bind split: if_splits)

lemma velocity_main_speed_bound_total:
  assumes "0 < uMaxSpeed u" "0 < uBoundaryRadius u"
    and "xyz (texture2D W H tp (frag_uv W H agent)) + vec3s 0.0001 \<noteq> 0"
  shows "\<exists>v. velocity_main u W H tp tv agent = Some (v, 1) \<and> length_v v \<le> uMaxSpeed u"
proof -
  obtain a where "acceleration u W H tp tv agent = Some a"
    using acceleration_total [OF assms(2,3)] by blast
  then show ?thesis
    using velocity_main_speed_bound [OF assms(1)] by blast
qed

section \<open>The sampled ids, and the initial textures\<close>

lemma stride_n_65536: "W * H = 65536 \<Longrightarrow> stride_n W H = 218"
  by (simp add: stride_n_def)

lemma sampled_ids_65536:
  assumes "W * H = 65536"
  shows "sampled_ids W H agent = map (\<lambda>i. i * 218) [0..<300]"
proof -
  have "0 < W" using assms by (cases W) simp_all
  then show ?thesis
    by (simp add: sampled_ids_stride stride_n_65536 [OF assms] MAX_SAMPLES_def)
qed

lemma sampled_ids_distinct:
  assumes "0 < W"
  shows "distinct (sampled_ids W H agent)" "length (sampled_ids W H agent) = 300"
proof -
  have "0 < stride_n W H" by (simp add: stride_n_def)
  then have "inj_on (\<lambda>i. i * stride_n W H) (set [0..<MAX_SAMPLES])"
    by (simp add: inj_on_def)
  then show "distinct (sampled_ids W H agent)"
    by (simp add: sampled_ids_stride [OF assms] distinct_map)
  show "length (sampled_ids W H agent) = 300"
    by (simp add: sampled_ids_stride [OF assms] MAX_SAMPLES_def)
qed

lemma sampled_ids_include_self:
  assumes "0 < W" "k < MAX_SAMPLES"
  shows "k * stride_n W H \<in> set (sampled_ids W H (k * stride_n W H))"
  using assms by (auto simp: sampled_ids_stride)

lemma length_v_spherical:
  "length_v (Vec3 (r * sin p * cos t) (r * sin p * sin t) (r * cos p)) = \<bar>r\<bar>"
proof -
  have "r * sin p * cos t * (r * sin p * cos t) + r * sin p * sin t * (r * sin p * sin t)
          + r * cos p * (r * cos p)
        = r * r * (sin p * sin p * (cos t * cos t + sin t * sin t) + cos p * cos p)"
    by algebra
  also have "\<dots> = r * r * (cos p * cos p + sin p * sin p)"
    by (simp only: sin_cos_squared_add3 mult_1_right add.commute)
  also have "\<dots> = r\<^sup>2"
    by (simp only: sin_cos_squared_add3 mult_1_right power2_eq_square)
  finally have "dot (Vec3 (r * sin p * cos t) (r * sin p * sin t) (r * cos p))
      (Vec3 (r * sin p * cos t) (r * sin p * sin t) (r * cos p)) = r\<^sup>2"
    unfolding dot_def vec3.sel .
  then show ?thesis
    unfolding length_v_def by (simp only: real_sqrt_abs)
qed

lemma fillVelocityTexture_length:
  assumes "k < n"
  shows "length_v (xyz (fillVelocityTexture ps rnd c n ! k)) = \<bar>maxSpeed ps * 0.3\<bar>"
  using assms
proof (induction n arbitrary: c k)
  case 0
  then show ?case by simp
next
  case (Suc n)
  show ?case
  proof (cases k)
    case 0
    then show ?thesis
      using length_v_spherical [of "maxSpeed ps * 0.3"]
      by (simp add: Let_def xyz_def)
  next
    case (Suc j)
    then show ?thesis
      using Suc.IH [of j "c + 2"] Suc.prems by (simp add: Let_def)
  qed
qed

lemma fillPositionTexture_length:
  assumes "k < n" "\<forall>i. 0 \<le> rnd i \<and> rnd i < 1" "0 \<le> boundaryRadius ps"
  shows "length_v (xyz (fillPositionTexture ps rnd c n ! k)) \<le> boundaryRadius ps * 0.6"
  using assms(1)
proof (induction n arbitrary: c k)
  case 0
  then show ?case by simp
next
  case (Suc n)
  show ?case
  proof (cases k)
    case 0
    have "\<bar>rnd c * (boundaryRadius ps * 0.6)\<bar> \<le> boundaryRadius ps * 0.6"
    proof -
      have "0 \<le> rnd c" "rnd c \<le> 1" using assms(2) by (simp_all add: less_imp_le)
      then have "rnd c * (boundaryRadius ps * 0.6) \<le> 1 * (boundaryRadius ps * 0.6)"
        using assms(3) by (intro mult_right_mono) simp_all
      moreover have "0 \<le> rnd c * (boundaryRadius ps * 0.6)"
        using \<open>0 \<le> rnd c\<close> assms(3) by simp
      ultimately show ?thesis by simp
    qed
    then show ?thesis
      using 0 length_v_spherical [of "rnd c * (boundaryRadius ps * 0.6)"]
      by (simp add: Let_def xyz_def)
  next
    case (Suc j)
    then show ?thesis
      using Suc.IH [of j "c + 3"] Suc.prems by (simp add: Let_def)
  qed
qed

section \<open>Claims\<close>

text \<open>
  C7. The field returned by \<open>curlNoise\<close> is divergence-free under discrete sampling:
  at every point \<open>p\<close>, the divergence estimated by central differences with the step
  0.1 that \<open>curlNoise\<close> itself uses is exactly 0 in exact arithmetic. The result does
  not depend on what \<open>noise3D\<close> computes.
\<close>

theorem curlNoise_divergence_free: "divergence_cd 0.1 curlNoise p = 0"
proof (cases p)
  case (Vec3 x y z)
  have "divergence_cd 0.1 curlNoise (Vec3 x y z) = (0 :: real) / (2 * 0.1)"
    unfolding divergence_cd_def curlNoise_def Let_def
    apply (simp only: add_divide_distrib [symmetric] diff_divide_distrib [symmetric]
        vec3_plus_simp vec3_minus_simp vec3.sel)
    apply (simp add: algebra_simps)
    done
  then show ?thesis using Vec3 by simp
qed

text \<open>
  C3 (as amended). In the velocity shader, every sampled neighbour at distance \<open>d\<close>
  with \<open>0 < d < uSeparationRadius\<close> adds \<open>normalize(diff) / dist\<close>, that is
  \<open>(myPos - neighborPos) / d\<^sup>2\<close>, to the separation accumulator and 1 to the count;
  after the loop the accumulator is divided by the count and the acceleration gains
  it scaled by \<open>uSeparationWeight * min(count * (N / 300) / 10, 3)\<close>; with no such
  neighbour nothing is added.
\<close>

theorem separation_contribution:
  "let close = filter (in_range (uSeparationRadius u) myPos)
                      (sampled_positions W H tp selfPixel [0..<MAX_SAMPLES]);
        total = sum_list (map (\<lambda>q. (myPos - q) /\<^sub>R (length_v (myPos - q))\<^sup>2) close);
        count = real (length close);
        sampleRatio = TOTAL_PARTICLES W H / real MAX_SAMPLES
    in \<exists>acc. sample_loop (sample_step u W H tp tv selfPixel myPos) [0..<MAX_SAMPLES] accum0 = Some acc
         \<and> separation acc = total
         \<and> separationCount acc = count
         \<and> separation_force u sampleRatio acc accel =
             (if count > 0
              then accel + (uSeparationWeight u * min (count * sampleRatio / 10) 3) *\<^sub>R (total /\<^sub>R count)
              else accel)"
proof -
  obtain acc where
    "sample_loop (sample_step u W H tp tv selfPixel myPos) [0..<MAX_SAMPLES] accum0 = Some acc"
    "separation acc = separation accum0 +
       sum_list (map (\<lambda>q. (myPos - q) /\<^sub>R (length_v (myPos - q))\<^sup>2)
         (filter (in_range (uSeparationRadius u) myPos)
           (sampled_positions W H tp selfPixel [0..<MAX_SAMPLES])))"
    "separationCount acc = separationCount accum0 +
       real (length (filter (in_range (uSeparationRadius u) myPos)
           (sampled_positions W H tp selfPixel [0..<MAX_SAMPLES])))"
    using sample_loop_separation [of u W H tp tv selfPixel myPos "[0..<MAX_SAMPLES]" accum0]
    by blast
  then show ?thesis
    unfolding Let_def separation_force_closed
    by (intro exI [of _ acc]) (simp add: accum0_def zero_vec3_simp)
qed

text \<open>
  C3 as stated fails: a neighbour at distance 2 adds \<open>(1/2, 0, 0)\<close>, the unit
  direction divided by the distance, and not \<open>(myPos - neighborPos) / d = (1, 0, 0)\<close>.
\<close>

theorem separation_term_counterexample:
  "map_option separation
     (accumulate (uniforms0\<lparr>uSeparationRadius := 25\<rparr>) (Vec3 2 0 0) (Vec3 0 0 0) (Vec3 0 0 0) accum0)
     = Some (Vec3 (1 / 2) 0 0)
   \<and> separation accum0 + (Vec3 2 0 0 - Vec3 0 0 0) /\<^sub>R length_v (Vec3 2 0 0 - Vec3 0 0 0)
     = Vec3 1 0 0"
  by (simp add: accumulate_def Let_def normalize_def accum0_def)


text \<open>
  C1 (as amended). In one tick the position shader writes, for every agent,
  \<open>nextPosition = position + velocity * uDelta\<close> where \<open>velocity\<close> is the agent's
  velocity of the current generation (the texture the velocity shader also reads),
  not the velocity that the velocity shader writes in the same tick.
\<close>

theorem position_uses_current_velocity:
  assumes "compute u W H s = Some s'" "agent < W * H"
  shows "xyz (cur_position s' ! agent)
           = xyz (cur_position s ! agent) + uDelta u *\<^sub>R xyz (cur_velocity s ! agent)"
  using compute_position [OF assms] position_main_self [OF assms(2)]
  by (simp add: xyz_def)

theorem position_uses_current_velocity_witness:
  "compute uniforms_drift 1 1
     \<lparr>cur_position = [(Vec3 0 0 0, 1)], cur_velocity = [(Vec3 1 0 0, 1)]\<rparr>
    = Some \<lparr>cur_position = [(Vec3 0.01 0 0, 1)], cur_velocity = [(Vec3 10 0 0, 1)]\<rparr>
   \<and> (0::nat) < 1 * 1
   \<and> xyz ([(Vec3 0.01 0 0, 1)] ! 0) = xyz ([(Vec3 0 0 0, 1)] ! 0) + uDelta uniforms_drift *\<^sub>R xyz ([(Vec3 1 0 0, 1)] ! 0)"
  using position_uses_current_velocity [OF compute_drift_origin, of 0] compute_drift_origin by simp

text \<open>
  C1 as stated fails: an agent at \<open>(350, 0, 0)\<close> with velocity \<open>(1, 0, 0)\<close> gets the
  next velocity \<open>(0, 0, 0)\<close> and the next position \<open>(350.01, 0, 0)\<close>, which is not
  \<open>position + nextVelocity * dt = (350, 0, 0)\<close>.
\<close>

theorem position_next_velocity_counterexample:
  "compute uniforms_drift 1 1
     \<lparr>cur_position = [(Vec3 350 0 0, 1)], cur_velocity = [(Vec3 1 0 0, 1)]\<rparr>
    = Some \<lparr>cur_position = [(Vec3 350.01 0 0, 1)], cur_velocity = [(Vec3 0 0 0, 1)]\<rparr>
   \<and> Vec3 350.01 0 0 \<noteq> Vec3 350 0 0 + uDelta uniforms_drift *\<^sub>R Vec3 0 0 0"
  using compute_drift_boundary by simp

text \<open>
  C5 fails on the code, by the defect of C8. With \<open>uMaxSpeed = 50 > 0\<close>, the agent at
  \<open>(-0.0001, -0.0001, -0.0001)\<close> with velocity \<open>(60, 0, 0)\<close> should leave the update
  with a velocity of magnitude 50; the unguarded \<open>normalize\<close> of the centroid pull
  makes its acceleration undefined, and the velocity written is undefined (NaN), so
  it has no magnitude at most \<open>uMaxSpeed\<close>. Wherever the acceleration is defined the
  bound holds and a longer integrated velocity is rescaled to exactly \<open>uMaxSpeed\<close>
  (\<open>velocity_main_speed_bound\<close>).
\<close>

theorem speed_bound_lost_where_undefined:
  "0 < uMaxSpeed uniforms0
   \<and> uMaxSpeed uniforms0 < length_v (xyz (texture2D 1 1 [(Vec3 60 0 0, 1)] (frag_uv 1 1 0)))
   \<and> velocity_main uniforms0 1 1
        [(Vec3 (- 0.0001) (- 0.0001) (- 0.0001), 1)] [(Vec3 60 0 0, 1)] 0 = None"
proof -
  have "acceleration uniforms0 1 1 [(Vec3 (- 0.0001) (- 0.0001) (- 0.0001), 1)]
      [(Vec3 60 0 0, 1)] 0 = None"
    by (rule acceleration_undefined) (simp add: xyz_def zero_vec3_simp)
  then show ?thesis
    by (simp add: velocity_main_bind uniforms0_def params0_def xyz_def)
qed

text \<open>
  C4 (as amended). With \<open>uMaxSpeed > 0\<close>, whenever the integrated velocity
  \<open>myVel + accel * uDelta\<close> has magnitude above 0.001, the velocity written has
  magnitude at least \<open>0.2 * uMaxSpeed\<close>. The test is on the integrated velocity, not
  on the velocity before the update.
\<close>

theorem min_speed_of_integrated_velocity:
  assumes "0 < uMaxSpeed u"
    and "acceleration u W H tp tv agent = Some accel"
    and "length_v (xyz (texture2D W H tv (frag_uv W H agent)) + uDelta u *\<^sub>R accel) > 0.001"
  shows "\<exists>v. velocity_main u W H tp tv agent = Some (v, 1) \<and> length_v v \<ge> 0.2 * uMaxSpeed u"
  using clamp_speed_bounds [OF assms(1),
      of "xyz (texture2D W H tv (frag_uv W H agent)) + uDelta u *\<^sub>R accel"] assms
  by (auto simp: velocity_main_bind split: if_splits)

theorem min_speed_of_integrated_velocity_witness:
  "0 < uMaxSpeed uniforms_drift
   \<and> acceleration uniforms_drift 1 1 [(Vec3 0 0 0, 1)] [(Vec3 1 0 0, 1)] 0 = Some 0
   \<and> length_v (xyz (texture2D 1 1 [(Vec3 1 0 0, 1)] (frag_uv 1 1 0)) + uDelta uniforms_drift *\<^sub>R 0) > 0.001
   \<and> (\<exists>v. velocity_main uniforms_drift 1 1 [(Vec3 0 0 0, 1)] [(Vec3 1 0 0, 1)] 0 = Some (v, 1)
         \<and> length_v v \<ge> 0.2 * uMaxSpeed uniforms_drift)"
proof -
  have a: "acceleration uniforms_drift 1 1 [(Vec3 0 0 0, 1)] [(Vec3 1 0 0, 1)] 0 = Some 0"
    by (rule acceleration_drift_origin)
  have m: "0 < uMaxSpeed uniforms_drift" by simp
  have l: "length_v (xyz (texture2D 1 1 [(Vec3 1 0 0, 1)] (frag_uv 1 1 0))
             + uDelta uniforms_drift *\<^sub>R 0) > 0.001"
    by (simp add: xyz_def zero_vec3_simp)
  show ?thesis
    using min_speed_of_integrated_velocity [OF m a l] a m l by blast
qed

text \<open>
  C4 as stated fails: an agent at the boundary radius moving outward at speed 1 is
  stopped by the containment force; its integrated velocity is \<open>(0, 0, 0)\<close>, which the
  minimum-speed branch leaves alone, although \<open>0.2 * uMaxSpeed = 10\<close>.
\<close>

theorem moving_agent_stalls_counterexample:
  "velocity_main uniforms_drift 1 1 [(Vec3 350 0 0, 1)] [(Vec3 1 0 0, 1)] 0 = Some (Vec3 0 0 0, 1)
   \<and> length_v (Vec3 1 0 0) = 1
   \<and> length_v (Vec3 0 0 0) = 0
   \<and> 0.2 * uMaxSpeed uniforms_drift = 10"
  using velocity_main_drift_boundary by simp


text \<open>
  C6 (as amended). With the separation, alignment and cohesion weights and the
  turbulence at 0, for every \<open>uDelta\<close> and every agent that is within
  \<open>0.7 * uBoundaryRadius\<close> of the origin and whose speed is at most \<open>uMaxSpeed\<close> and
  either at least \<open>0.2 * uMaxSpeed\<close> or at most 0.001, the velocity shader (where its
  result is defined) writes the agent's velocity unchanged, and the position shader
  advances the position by exactly \<open>velocity * uDelta\<close>.
\<close>

theorem zero_force_drift:
  assumes a: "agent < W * H"
    and w: "uSeparationWeight u = 0" "uAlignmentWeight u = 0" "uCohesionWeight u = 0"
      "uTurbulence u = 0"
    and d: "velocity_main u W H tp tv agent = Some out"
    and inside: "length_v (xyz (tp ! agent)) \<le> uBoundaryRadius u * 0.7"
    and sp: "length_v (xyz (tv ! agent)) \<le> uMaxSpeed u"
      "uMaxSpeed u * 0.2 \<le> length_v (xyz (tv ! agent)) \<or> length_v (xyz (tv ! agent)) \<le> 0.001"
  shows "xyz out = xyz (tv ! agent)
       \<and> xyz (position_main (uDelta u) W H tp tv agent)
           = xyz (tp ! agent) + uDelta u *\<^sub>R xyz out"
proof -
  have myPos: "xyz (texture2D W H tp (frag_uv W H agent)) = xyz (tp ! agent)"
    and myVel: "xyz (texture2D W H tv (frag_uv W H agent)) = xyz (tv ! agent)"
    by (simp_all add: texture2D_self [OF a])
  obtain accel where acc: "acceleration u W H tp tv agent = Some accel"
    using d by (auto simp: velocity_main_bind bind_eq_Some_conv)
  have "acceleration u W H tp tv agent = soft_boundary u (xyz (tp ! agent)) 0"
    using acceleration_zero_weights [OF acceleration_SomeD [OF acc] w] myPos by simp
  also have "\<dots> = Some 0"
    using inside by (simp add: soft_boundary_closed [OF acceleration_SomeD(1) [OF acc]])
  finally have "velocity_main u W H tp tv agent = Some (xyz (tv ! agent), 1)"
    using clamp_speed_id [OF sp] by (simp add: velocity_main_bind myVel)
  with d have out: "xyz out = xyz (tv ! agent)"
    by (auto simp: xyz_def)
  then show ?thesis
    using position_main_self [OF a, of "uDelta u" tp tv] by (simp add: xyz_def)
qed

theorem zero_force_drift_witness:
  "(0::nat) < 1 * 1
   \<and> uSeparationWeight uniforms_drift = 0 \<and> uAlignmentWeight uniforms_drift = 0
   \<and> uCohesionWeight uniforms_drift = 0 \<and> uTurbulence uniforms_drift = 0
   \<and> velocity_main uniforms_drift 1 1 [(Vec3 0 0 0, 1)] [(Vec3 20 0 0, 1)] 0
       = Some (Vec3 20 0 0, 1)
   \<and> length_v (Vec3 0 0 0) \<le> uBoundaryRadius uniforms_drift * 0.7
   \<and> length_v (Vec3 20 0 0) \<le> uMaxSpeed uniforms_drift
   \<and> uMaxSpeed uniforms_drift * 0.2 \<le> length_v (Vec3 20 0 0)
   \<and> xyz (position_main (uDelta uniforms_drift) 1 1 [(Vec3 0 0 0, 1)] [(Vec3 20 0 0, 1)] 0)
       = Vec3 0 0 0 + uDelta uniforms_drift *\<^sub>R Vec3 20 0 0"
  using zero_force_drift [of 0 1 1 uniforms_drift "[(Vec3 0 0 0, 1)]" "[(Vec3 20 0 0, 1)]" "(Vec3 20 0 0, 1)"]
    velocity_main_drift_cruise
  by (simp add: xyz_def)

text \<open>
  C6 as stated fails: with all four at 0, an agent at the origin with velocity
  \<open>(1, 0, 0)\<close> leaves the tick with velocity \<open>(10, 0, 0)\<close>, the minimum speed.
\<close>

theorem zero_force_speed_counterexample:
  "uSeparationWeight uniforms_drift = 0 \<and> uAlignmentWeight uniforms_drift = 0
   \<and> uCohesionWeight uniforms_drift = 0 \<and> uTurbulence uniforms_drift = 0
   \<and> xyz (texture2D 1 1 [(Vec3 1 0 0, 1)] (frag_uv 1 1 0)) = Vec3 1 0 0
   \<and> velocity_main uniforms_drift 1 1 [(Vec3 0 0 0, 1)] [(Vec3 1 0 0, 1)] 0
       = Some (Vec3 10 0 0, 1)
   \<and> Vec3 10 0 0 \<noteq> Vec3 1 0 0"
  using velocity_main_drift_origin by (simp add: xyz_def)

text \<open>
  C8 fails on the code. The \<open>normalize\<close> of the centroid pull is not guarded: its
  argument \<open>myPos + vec3(0.0001)\<close> has length zero for the agent at
  \<open>(-0.0001, -0.0001, -0.0001)\<close>, and the velocity written for that agent is
  undefined (NaN), here with the uniforms that \<open>main.ts\<close> sets first.
\<close>

theorem centroid_pull_normalize_unguarded:
  "velocity_main uniforms0 1 1 [(Vec3 (- 0.0001) (- 0.0001) (- 0.0001), 1)] [(Vec3 15 0 0, 1)] 0
     = None"
proof -
  have "acceleration uniforms0 1 1 [(Vec3 (- 0.0001) (- 0.0001) (- 0.0001), 1)]
      [(Vec3 15 0 0, 1)] 0 = None"
    by (rule acceleration_undefined) (simp add: xyz_def zero_vec3_simp)
  then show ?thesis
    by (simp add: velocity_main_bind)
qed

text \<open>
  C9. With \<open>uBoundaryRadius > 0\<close> and \<open>r\<close> the agent's distance from the origin:
  if \<open>r \<le> 0.7 * uBoundaryRadius\<close> the soft boundary adds nothing; if
  \<open>r > 0.7 * uBoundaryRadius\<close> it adds \<open>t\<^sup>3 * 2 * uMaxSpeed\<close> times the unit vector
  that points from the agent to the origin, with
  \<open>t = clamp((r - 0.7 * uBoundaryRadius) / (0.3 * uBoundaryRadius), 0, 1)\<close>, so the
  magnitude is \<open>t\<^sup>3 * 2 * |uMaxSpeed|\<close>; from \<open>r = uBoundaryRadius\<close> on the factor is
  exactly \<open>2 * uMaxSpeed\<close>.
\<close>

theorem soft_boundary_force:
  assumes R: "0 < uBoundaryRadius u"
  shows "let r = length_v myPos;
             t = clamp ((r - 0.7 * uBoundaryRadius u) / (0.3 * uBoundaryRadius u)) 0 1;
             inward = - ((1 / r) *\<^sub>R myPos)
         in (r \<le> 0.7 * uBoundaryRadius u \<longrightarrow> soft_boundary u myPos accel = Some accel)
          \<and> (r > 0.7 * uBoundaryRadius u \<longrightarrow>
               soft_boundary u myPos accel = Some (accel + (t ^ 3 * 2 * uMaxSpeed u) *\<^sub>R inward)
               \<and> length_v inward = 1
               \<and> length_v ((t ^ 3 * 2 * uMaxSpeed u) *\<^sub>R inward) = t ^ 3 * 2 * \<bar>uMaxSpeed u\<bar>)
          \<and> (r \<ge> uBoundaryRadius u \<longrightarrow> t ^ 3 * 2 * uMaxSpeed u = 2 * uMaxSpeed u)"
proof -
  define r where "r = length_v myPos"
  define t where "t = clamp ((r - 0.7 * uBoundaryRadius u) / (0.3 * uBoundaryRadius u)) 0 1"
  define inward where "inward = - ((1 / r) *\<^sub>R myPos)"
  have t0: "0 \<le> t" by (simp add: t_def clamp_def)
  have near: "soft_boundary u myPos accel = Some accel" if "r \<le> 0.7 * uBoundaryRadius u"
    using that by (simp add: soft_boundary_closed [OF R] r_def)
  have far: "soft_boundary u myPos accel = Some (accel + (t ^ 3 * 2 * uMaxSpeed u) *\<^sub>R inward)
      \<and> length_v inward = 1
      \<and> length_v ((t ^ 3 * 2 * uMaxSpeed u) *\<^sub>R inward) = t ^ 3 * 2 * \<bar>uMaxSpeed u\<bar>"
    if "r > 0.7 * uBoundaryRadius u"
  proof -
    have pos: "0 < length_v myPos" using that R by (simp add: r_def)
    have u1: "length_v inward = 1"
      using length_v_unit [OF pos] length_v_scaleR [of "- 1" "(1 / r) *\<^sub>R myPos"]
      by (simp add: inward_def r_def)
    have "soft_boundary u myPos accel = Some (accel + (t ^ 3 * 2 * uMaxSpeed u) *\<^sub>R inward)"
      using that by (simp add: soft_boundary_closed [OF R] r_def t_def inward_def mult.commute)
    moreover have "length_v ((t ^ 3 * 2 * uMaxSpeed u) *\<^sub>R inward) = t ^ 3 * 2 * \<bar>uMaxSpeed u\<bar>"
      using t0 u1 by (simp add: length_v_scaleR abs_mult)
    ultimately show ?thesis using u1 by simp
  qed
  have full: "t ^ 3 * 2 * uMaxSpeed u = 2 * uMaxSpeed u" if "r \<ge> uBoundaryRadius u"
  proof -
    have "(r - 0.7 * uBoundaryRadius u) / (0.3 * uBoundaryRadius u) \<ge> 1"
      using that R by (simp add: field_simps)
    then have "t = 1" by (simp add: t_def clamp_def)
    then show ?thesis by simp
  qed
  show ?thesis
    unfolding Let_def using near far full
    by (simp add: r_def t_def inward_def)
qed

theorem soft_boundary_force_witness:
  "0 < uBoundaryRadius uniforms0
   \<and> length_v (Vec3 350 0 0) \<ge> uBoundaryRadius uniforms0
   \<and> soft_boundary uniforms0 (Vec3 350 0 0) 0 = Some (Vec3 (- 100) 0 0)"
proof -
  have R: "0 < uBoundaryRadius uniforms0" by (simp add: uniforms0_def params0_def)
  show ?thesis
    using soft_boundary_force [OF R, of "Vec3 350 0 0" 0]
    by (simp add: Let_def uniforms0_def params0_def clamp_def zero_vec3_simp)
qed


text \<open>
  C2 fails on the code. With \<open>N = 256 * 256 = 65536\<close> texels the loop of agent 0
  reads the 300 distinct ids \<open>0, 218, 436, ...\<close>, and the first of them is the
  agent's own id 0: the test of \<open>// Skip self\<close> compares the integer pixel
  \<open>(px, py)\<close> with \<open>gl_FragCoord.xy\<close>, the pixel centre, and is never true
  (\<open>skip_self_never\<close>). Agent 0 reads its own texel on the \<open>512 * 512\<close> texture of
  \<open>main.ts\<close> as well.
\<close>

theorem sampler_reads_own_texel:
  "sampled_ids 256 256 0 = map (\<lambda>i. i * 218) [0..<300]
   \<and> length (sampled_ids 256 256 0) = 300
   \<and> distinct (sampled_ids 256 256 0)
   \<and> sampled_ids 256 256 0 ! 0 = 0
   \<and> sampled_ids TEXTURE_WIDTH TEXTURE_HEIGHT 0 ! 0 = 0"
proof -
  have s: "sampled_ids 256 256 0 = map (\<lambda>i. i * 218) [0..<300]"
    by (rule sampled_ids_65536) simp
  have "sampled_ids 256 256 0 ! 0 = 0"
    unfolding s by (simp add: nth_map)
  moreover have "sampled_ids TEXTURE_WIDTH TEXTURE_HEIGHT 0 ! 0 = 0"
    by (simp add: sampled_ids_stride TEXTURE_WIDTH_def MAX_SAMPLES_def nth_map)
  ultimately show ?thesis
    using s sampled_ids_distinct [of 256 256 0] by simp
qed

text \<open>
  C10. After \<open>fillPositionTexture\<close> and \<open>fillVelocityTexture\<close>, whatever numbers in
  \<open>[0, 1)\<close> \<open>Math.random()\<close> returns, every agent's velocity has magnitude exactly
  \<open>0.3 * maxSpeed\<close> and every agent's position is within \<open>0.6 * boundaryRadius\<close> of
  the origin (in exact arithmetic, with the parameters \<open>main.ts\<close> starts with).
\<close>

theorem initial_speed_and_spread:
  assumes "\<forall>i. 0 \<le> rnd i \<and> rnd i < 1" "k < W * H"
  shows "length_v (xyz (cur_velocity (init_sim params0 rnd W H) ! k)) = 0.3 * maxSpeed params0
       \<and> length_v (xyz (cur_position (init_sim params0 rnd W H) ! k)) \<le> 0.6 * boundaryRadius params0"
  using fillVelocityTexture_length [OF assms(2), of params0 rnd "3 * (W * H)"]
    fillPositionTexture_length [OF assms(2,1), of params0 0]
  by (simp add: init_sim_def params0_def)

theorem initial_speed_and_spread_witness:
  "(\<forall>i. (0::real) \<le> (\<lambda>n. 1 / 2) i \<and> (\<lambda>n. 1 / 2) i < (1::real)) \<and> (0::nat) < 1 * 1
   \<and> length_v (xyz (cur_velocity (init_sim params0 (\<lambda>n. 1 / 2) 1 1) ! 0)) = 0.3 * maxSpeed params0
   \<and> length_v (xyz (cur_position (init_sim params0 (\<lambda>n. 1 / 2) 1 1) ! 0)) \<le> 0.6 * boundaryRadius params0"
  using initial_speed_and_spread [of "\<lambda>n. 1 / 2" 0 1 1] by simp

end
